theory Spec2Isabelle
  imports Complex_Main "HOL-Library.Word" "HOL-Library.Sublist" "HOL-Library.AList"
begin

section \<open>HomeShare: path confinement, resumable uploads, range downloads, archives\<close>

text \<open>
  A shallow embedding of \<^verbatim>\<open>src/server.py\<close>. Python exceptions are values of the type
  \<open>error\<close>, a function that can raise returns \<open>error + 'a\<close>, and a function that
  mutates the disk takes the \<open>world\<close> and returns the new one together with its outcome,
  so that what was already written when an exception is raised stays visible.
\<close>

subsection \<open>Basic data\<close>

type_synonym bytes = "8 word list"

text \<open>
  A \<^verbatim>\<open>pathlib.Path\<close> that is absolute: the list of its components below \<^verbatim>\<open>/\<close>.
  The components may still contain \<^verbatim>\<open>..\<close> until the path is resolved.
\<close>

type_synonym path = "string list"

text \<open>
  The exceptions the code raises or meets, each with its message. An error that the
  operating system raises carries the text of its errno only.
  \<^verbatim>\<open>JSONDecodeError\<close> is a subclass of \<^verbatim>\<open>ValueError\<close>: an \<^verbatim>\<open>except ValueError\<close> clause
  matches both.
\<close>

datatype error =
    PermissionError string
  | FileNotFoundError string
  | FileExistsError string
  | NotADirectoryError string
  | IsADirectoryError string
  | OSError string
  | ValueError string
  | JSONDecodeError string
  | KeyError string
  | ShutilError string

fun str_exc :: "error \<Rightarrow> string" where
  \<comment> \<open>\<^verbatim>\<open>str(exc)\<close>\<close>
  "str_exc (PermissionError m) = m"
| "str_exc (FileNotFoundError m) = m"
| "str_exc (FileExistsError m) = m"
| "str_exc (NotADirectoryError m) = m"
| "str_exc (IsADirectoryError m) = m"
| "str_exc (OSError m) = m"
| "str_exc (ValueError m) = m"
| "str_exc (JSONDecodeError m) = m"
| "str_exc (KeyError m) = m"
| "str_exc (ShutilError m) = m"

subsection \<open>String functions of the Python library\<close>

definition strip_chars :: "char \<Rightarrow> string \<Rightarrow> string" where
  \<comment> \<open>\<^verbatim>\<open>s.strip(c)\<close> for a single character \<open>c\<close>\<close>
  "strip_chars c s = rev (dropWhile (\<lambda>x. x = c) (rev (dropWhile (\<lambda>x. x = c) s)))"

definition rstrip_chars :: "char \<Rightarrow> string \<Rightarrow> string" where
  \<comment> \<open>\<^verbatim>\<open>s.rstrip(c)\<close>\<close>
  "rstrip_chars c s = rev (dropWhile (\<lambda>x. x = c) (rev s))"

fun split_on :: "char \<Rightarrow> string \<Rightarrow> string list" where
  \<comment> \<open>\<^verbatim>\<open>s.split(c)\<close>: always at least one field\<close>
  "split_on c [] = [[]]"
| "split_on c (x # xs) =
     (if x = c then [] # split_on c xs
      else (case split_on c xs of [] \<Rightarrow> [[x]] | w # ws \<Rightarrow> (x # w) # ws))"

fun join_with :: "string \<Rightarrow> string list \<Rightarrow> string" where
  \<comment> \<open>\<^verbatim>\<open>sep.join(xs)\<close>\<close>
  "join_with sep [] = []"
| "join_with sep [x] = x"
| "join_with sep (x # y # ys) = x @ sep @ join_with sep (y # ys)"

definition startswith :: "string \<Rightarrow> string \<Rightarrow> bool" where
  "startswith s p = (take (length p) s = p)"

text \<open>\<^verbatim>\<open>str(n)\<close> for an integer: decimal digits, a minus sign when negative.\<close>

definition digit_char :: "nat \<Rightarrow> char" where
  "digit_char d = char_of (48 + d)"

fun str_nat :: "nat \<Rightarrow> string" where
  "str_nat n = (if n < 10 then [digit_char n] else str_nat (n div 10) @ [digit_char (n mod 10)])"

declare str_nat.simps [simp del]

definition str_int :: "int \<Rightarrow> string" where
  "str_int i = (if i < 0 then CHR ''-'' # str_nat (nat (- i)) else str_nat (nat i))"

text \<open>
  \<^verbatim>\<open>int(s)\<close> on a string that a \<^verbatim>\<open>\d*\<close> or \<^verbatim>\<open>\d+\<close> group has matched. Header
  values are Latin-1, where the only decimal digits are \<^verbatim>\<open>0\<close> to \<^verbatim>\<open>9\<close>.
\<close>

definition is_digit :: "char \<Rightarrow> bool" where
  "is_digit c = ((48::nat) \<le> of_char c \<and> of_char c \<le> (57::nat))"



subsection \<open>posixpath.normpath\<close>

text \<open>
  The loop of \<^verbatim>\<open>posixpath.normpath\<close> over the components, \<open>new_comps\<close> being the list
  built so far.
\<close>

fun norm_comps :: "bool \<Rightarrow> string list \<Rightarrow> string list \<Rightarrow> string list" where
  "norm_comps initial_slashes new_comps [] = new_comps"
| "norm_comps initial_slashes new_comps (cmp # comps) =
     (if cmp = [] \<or> cmp = ''.'' then norm_comps initial_slashes new_comps comps
      else if cmp \<noteq> ''..'' \<or> (\<not> initial_slashes \<and> new_comps = [])
              \<or> (new_comps \<noteq> [] \<and> last new_comps = ''..'')
        then norm_comps initial_slashes (new_comps @ [cmp]) comps
      else if new_comps \<noteq> [] then norm_comps initial_slashes (butlast new_comps) comps
      else norm_comps initial_slashes new_comps comps)"

definition normpath :: "string \<Rightarrow> string" where
  "normpath p =
     (if p = [] then ''.''
      else
        let initial_slashes =
              (if startswith p ''/'' then
                 (if startswith p ''//'' \<and> \<not> startswith p ''///'' then 2 else 1)
               else (0::nat));
            comps = norm_comps (initial_slashes \<noteq> 0) [] (split_on (CHR ''/'') p);
            joined = join_with ''/'' comps;
            res = (if initial_slashes \<noteq> 0
                   then replicate initial_slashes (CHR ''/'') @ joined else joined)
        in if res = [] then ''.'' else res)"

subsection \<open>Path resolution\<close>

text \<open>
  \<^verbatim>\<open>Path.resolve(strict=False)\<close> asks the file system, which may hold symbolic links:
  it is a parameter \<open>res\<close> of the model, \<open>None\<close> standing for the
  \<^verbatim>\<open>FileNotFoundError\<close> that the source catches; no other exception of
  \<^verbatim>\<open>resolve\<close> is modelled. \<open>lexical_resolve\<close> is the resolution on a file system
  without symbolic links, where \<^verbatim>\<open>..\<close> removes the component before it and stays at
  the root.
\<close>

type_synonym resolver = "path \<Rightarrow> path option"

fun collapse_dotdot :: "path \<Rightarrow> path \<Rightarrow> path" where
  "collapse_dotdot acc [] = acc"
| "collapse_dotdot acc (c # cs) =
     (if c = ''..'' then collapse_dotdot (butlast acc) cs else collapse_dotdot (acc @ [c]) cs)"

definition lexical_resolve :: resolver where
  "lexical_resolve p = Some (collapse_dotdot [] p)"

definition candidate_path :: "path \<Rightarrow> string \<Rightarrow> path" where
  \<comment> \<open>the value of \<^verbatim>\<open>candidate\<close> in \<^verbatim>\<open>_safe_join\<close>\<close>
  "candidate_path root_dir relative =
     (let relative' = normpath (strip_chars (CHR ''/'') relative)
      in if relative' = [] \<or> relative' = ''.'' then root_dir
         else
           let parts = filter (\<lambda>p. p \<noteq> ''.'' \<and> p \<noteq> []) (split_on (CHR ''/'') relative')
           in if parts \<noteq> [] then root_dir @ parts else root_dir)"

definition resolve_or_self :: "resolver \<Rightarrow> path \<Rightarrow> path" where
  \<comment> \<open>the first \<^verbatim>\<open>try\<close> of \<^verbatim>\<open>_safe_join\<close>\<close>
  "resolve_or_self res candidate = (case res candidate of Some r \<Rightarrow> r | None \<Rightarrow> candidate)"

definition relative_to :: "path \<Rightarrow> path \<Rightarrow> error + path" where
  \<comment> \<open>\<^verbatim>\<open>p.relative_to(root_dir)\<close>: compares components, never touches the disk\<close>
  "relative_to p root_dir =
     (if prefix root_dir p then Inr (drop (length root_dir) p)
      else Inl (ValueError ''path is not in the subpath of root''))"

definition safe_join :: "resolver \<Rightarrow> path \<Rightarrow> string \<Rightarrow> error + path" where
  "safe_join res root_dir relative =
     (let resolved = resolve_or_self res (candidate_path root_dir relative)
      in case relative_to resolved root_dir of
           Inl _ \<Rightarrow> Inl (PermissionError ''Requested path escapes share root'')
         | Inr _ \<Rightarrow> Inr resolved)"

subsection \<open>The file system\<close>

text \<open>
  The directory tree, without symbolic links (they live in the \<open>resolver\<close>). A
  directory lists its entries in the order in which the operating system enumerates
  them; a new entry goes to the end.
\<close>

datatype node = File bytes | Dir "(string \<times> node) list"

fun lookup :: "node \<Rightarrow> path \<Rightarrow> node option" where
  "lookup n [] = Some n"
| "lookup (File b) (c # cs) = None"
| "lookup (Dir es) (c # cs) = (case map_of es c of None \<Rightarrow> None | Some n \<Rightarrow> lookup n cs)"

definition path_exists :: "node \<Rightarrow> path \<Rightarrow> bool" where
  \<comment> \<open>\<^verbatim>\<open>p.exists()\<close>\<close>
  "path_exists t p = (lookup t p \<noteq> None)"

definition is_dir :: "node \<Rightarrow> path \<Rightarrow> bool" where
  "is_dir t p = (case lookup t p of Some (Dir es) \<Rightarrow> True | _ \<Rightarrow> False)"

text \<open>
  \<^verbatim>\<open>p.mkdir(parents=True, exist_ok=True)\<close>: a directory that exists is left alone,
  missing directories are created from the top, and a regular file on the way or at
  \<^verbatim>\<open>p\<close> itself makes it raise.
\<close>

fun mkdir_parents :: "node \<Rightarrow> path \<Rightarrow> error + node" where
  "mkdir_parents (Dir es) [] = Inr (Dir es)"
| "mkdir_parents (File b) [] = Inl (FileExistsError ''[Errno 17] File exists'')"
| "mkdir_parents (File b) (c # cs) = Inl (NotADirectoryError ''[Errno 20] Not a directory'')"
| "mkdir_parents (Dir es) (c # cs) =
     (case map_of es c of
        None \<Rightarrow>
          (case mkdir_parents (Dir []) cs of
             Inl e \<Rightarrow> Inl e
           | Inr n \<Rightarrow> Inr (Dir (es @ [(c, n)])))
      | Some sub \<Rightarrow>
          (case mkdir_parents sub cs of
             Inl e \<Rightarrow> Inl e
           | Inr n \<Rightarrow> Inr (Dir (AList.update c n es))))"

text \<open>
  Placing a regular file at a path, as \<^verbatim>\<open>os.rename\<close> of a file onto it does: an
  existing regular file is replaced, the directory above must exist.
\<close>

fun put_file :: "node \<Rightarrow> path \<Rightarrow> bytes \<Rightarrow> error + node" where
  "put_file (File old) [] b = Inr (File b)"
| "put_file (Dir es) [] b = Inl (IsADirectoryError ''[Errno 21] Is a directory'')"
| "put_file (File old) (c # cs) b = Inl (NotADirectoryError ''[Errno 20] Not a directory'')"
| "put_file (Dir es) (c # cs) b =
     (case map_of es c of
        None \<Rightarrow>
          (if cs = [] then Inr (Dir (es @ [(c, File b)]))
           else Inl (FileNotFoundError ''[Errno 2] No such file or directory''))
      | Some sub \<Rightarrow>
          (case put_file sub cs b of
             Inl e \<Rightarrow> Inl e
           | Inr n \<Rightarrow> Inr (Dir (AList.update c n es))))"

subsection \<open>Upload sessions on disk\<close>

text \<open>
  The dictionary that \<^verbatim>\<open>create_session\<close> builds and \<^verbatim>\<open>_store_state\<close> writes as JSON.
\<close>

record meta =
  upload_id :: string
  target_path :: string
  temp_file :: string
  total_size :: int
  received :: int
  overwrite :: bool
  created_at :: real

text \<open>What \<^verbatim>\<open>_public_state\<close> returns: no \<^verbatim>\<open>temp_file\<close>, and \<^verbatim>\<open>completed\<close> computed.\<close>

record public_state =
  pub_upload_id :: string
  pub_target_path :: string
  pub_total_size :: int
  pub_received :: int
  pub_overwrite :: bool
  pub_created_at :: real
  completed :: bool

text \<open>A \<^verbatim>\<open>*.json\<close> file of the upload directory: a stored dictionary, or not JSON at all.\<close>

datatype state_file = NotJson | Stored meta

text \<open>
  Everything on disk. The upload directory is kept apart from the tree: its
  \<^verbatim>\<open>*.json\<close> files by upload id, in the order in which \<^verbatim>\<open>glob\<close> yields them, and its
  other files by name. The model takes the state directory to lie outside the share root.
\<close>

record world =
  resolve :: resolver
  tree :: node
  state_files :: "(string \<times> state_file) list"
  temp_files :: "(string \<times> bytes) list"

text \<open>The fields of \<^verbatim>\<open>UploadManager\<close> that its methods read.\<close>

record upload_manager =
  mgr_share_root :: path
  mgr_overwrite :: bool

definition temp_file_name :: "string \<Rightarrow> string" where
  \<comment> \<open>\<^verbatim>\<open>_temp_file\<close>, as the name inside the upload directory\<close>
  "temp_file_name uid = uid @ ''.part''"

definition load_state :: "world \<Rightarrow> string \<Rightarrow> error + meta" where
  "load_state w uid =
     (case map_of (state_files w) uid of
        None \<Rightarrow> Inl (FileNotFoundError ''Upload session not found'')
      | Some NotJson \<Rightarrow> Inl (JSONDecodeError ''Expecting value'')
      | Some (Stored m) \<Rightarrow> Inr m)"

definition store_state :: "world \<Rightarrow> string \<Rightarrow> meta \<Rightarrow> world" where
  "store_state w uid m = w\<lparr>state_files := AList.update uid (Stored m) (state_files w)\<rparr>"

definition public_state_of :: "meta \<Rightarrow> public_state" where
  \<comment> \<open>\<^verbatim>\<open>_public_state\<close>\<close>
  "public_state_of m =
     \<lparr>pub_upload_id = upload_id m, pub_target_path = target_path m,
      pub_total_size = total_size m, pub_received = received m,
      pub_overwrite = overwrite m, pub_created_at = created_at m,
      completed = (received m \<ge> total_size m \<and> total_size m > 0)\<rparr>"

text \<open>
  \<^verbatim>\<open>_list_sessions\<close>: a Python dict keeps the position of a key that is assigned again,
  which is what \<open>AList.update\<close> does.
\<close>

definition add_session :: "(string \<times> meta) list \<Rightarrow> string \<times> state_file \<Rightarrow> (string \<times> meta) list" where
  \<comment> \<open>the body of the loop: a file that is not JSON is skipped\<close>
  "add_session sessions entry =
     (case snd entry of
        NotJson \<Rightarrow> sessions
      | Stored d \<Rightarrow> AList.update (upload_id d) d sessions)"

definition list_sessions :: "world \<Rightarrow> (string \<times> meta) list" where
  "list_sessions w = foldl add_session [] (state_files w)"

definition touch :: "world \<Rightarrow> string \<Rightarrow> world" where
  "touch w name =
     (case map_of (temp_files w) name of
        Some b \<Rightarrow> w
      | None \<Rightarrow> w\<lparr>temp_files := temp_files w @ [(name, [])]\<rparr>)"

text \<open>
  \<^verbatim>\<open>create_session\<close>. \<open>new_id\<close> is what \<^verbatim>\<open>uuid.uuid4().hex\<close> returns and \<open>now\<close> what
  \<^verbatim>\<open>time.time()\<close> returns.
\<close>

definition create_session ::
  "upload_manager \<Rightarrow> world \<Rightarrow> string \<Rightarrow> int \<Rightarrow> bool \<Rightarrow> bool option \<Rightarrow> string \<Rightarrow> real
     \<Rightarrow> (error + public_state) \<times> world" where
  "create_session mgr w target_relative declared_size resume overwrite_arg new_id now =
     (case safe_join (resolve w) (mgr_share_root mgr) target_relative of
        Inl e \<Rightarrow> (Inl e, w)
      | Inr target \<Rightarrow>
          if is_dir (tree w) target
          then (Inl (ValueError ''Target path points to a directory''), w)
          else
            let ov = (case overwrite_arg of None \<Rightarrow> mgr_overwrite mgr | Some b \<Rightarrow> b);
                found = (if resume
                         then find (\<lambda>state. target_path state = target_relative
                                             \<and> total_size state = declared_size)
                                (map snd (list_sessions w))
                         else None)
            in (case found of
                 Some state \<Rightarrow> (Inr (public_state_of state), w)
               | None \<Rightarrow>
                   let m = \<lparr>upload_id = new_id, target_path = target_relative,
                            temp_file = temp_file_name new_id, total_size = declared_size,
                            received = 0, overwrite = ov, created_at = now\<rparr>
                   in (Inr (public_state_of m),
                       touch (store_state w new_id m) (temp_file_name new_id))))"

definition write_at :: "bytes \<Rightarrow> nat \<Rightarrow> bytes \<Rightarrow> bytes" where
  \<comment> \<open>\<^verbatim>\<open>seek(start); write(chunk)\<close> on a file opened \<^verbatim>\<open>r+b\<close>: a gap is filled with zeros\<close>
  "write_at old start chunk =
     take start (old @ replicate (start - length old) 0) @ chunk
       @ drop (start + length chunk) old"

definition delete_state :: "world \<Rightarrow> string \<Rightarrow> world" where
  "delete_state w uid =
     w\<lparr>state_files := AList.delete uid (state_files w),
       temp_files := AList.delete (temp_file_name uid) (temp_files w)\<rparr>"

text \<open>
  \<^verbatim>\<open>shutil.move(src, dst)\<close> for a source that is a file of the upload directory: into
  \<^verbatim>\<open>dst\<close> under the source's name when \<^verbatim>\<open>dst\<close> is a directory, onto \<^verbatim>\<open>dst\<close> otherwise.
\<close>

definition shutil_move :: "world \<Rightarrow> string \<Rightarrow> path \<Rightarrow> (error + path) \<times> world" where
  "shutil_move w src dst =
     (let real_dst = (if is_dir (tree w) dst then dst @ [src] else dst)
      in if is_dir (tree w) dst \<and> path_exists (tree w) real_dst
         then (Inl (ShutilError ''Destination path already exists''), w)
         else
           case map_of (temp_files w) src of
             None \<Rightarrow> (Inl (FileNotFoundError ''[Errno 2] No such file or directory''), w)
           | Some content \<Rightarrow>
               (case put_file (tree w) real_dst content of
                  Inl e \<Rightarrow> (Inl e, w)
                | Inr t \<Rightarrow>
                    (Inr real_dst,
                     w\<lparr>tree := t, temp_files := AList.delete src (temp_files w)\<rparr>)))"

definition finalize :: "upload_manager \<Rightarrow> world \<Rightarrow> meta \<Rightarrow> (error + unit) \<times> world" where
  \<comment> \<open>\<^verbatim>\<open>_finalize\<close>\<close>
  "finalize mgr w m =
     (case safe_join (resolve w) (mgr_share_root mgr) (target_path m) of
        Inl e \<Rightarrow> (Inl e, w)
      | Inr target \<Rightarrow>
          (case mkdir_parents (tree w) (butlast target) of
             Inl e \<Rightarrow> (Inl e, w)
           | Inr t1 \<Rightarrow>
               let w1 = w\<lparr>tree := t1\<rparr>
               in if path_exists t1 target \<and> \<not> overwrite m
                  then (Inl (FileExistsError (''Target file exists: '' @ target_path m)), w1)
                  else
                    (case shutil_move w1 (temp_file m) target of
                       (Inl e, w2) \<Rightarrow> (Inl e, w2)
                     | (Inr moved, w2) \<Rightarrow> (Inr (), delete_state w2 (upload_id m)))))"

definition append_chunk ::
  "upload_manager \<Rightarrow> world \<Rightarrow> string \<Rightarrow> int \<Rightarrow> int \<Rightarrow> bytes
     \<Rightarrow> (error + public_state) \<times> world" where
  "append_chunk mgr w uid start end_exclusive chunk =
     (case load_state w uid of
        Inl e \<Rightarrow> (Inl e, w)
      | Inr m \<Rightarrow>
          if received m \<noteq> start
          then (Inl (ValueError (''Unexpected chunk start: expected '' @ str_int (received m)
                                  @ '', got '' @ str_int start)), w)
          else if end_exclusive < start then (Inl (ValueError ''Invalid range end''), w)
          else if end_exclusive > total_size m
          then (Inl (ValueError ''Chunk exceeds declared file size''), w)
          else
            (case map_of (temp_files w) (temp_file m) of
              None \<Rightarrow> (Inl (FileNotFoundError ''[Errno 2] No such file or directory''), w)
            | Some old \<Rightarrow>
                if start < 0 then (Inl (OSError ''[Errno 22] Invalid argument''), w)
                else
                  let w1 = w\<lparr>temp_files :=
                              AList.update (temp_file m) (write_at old (nat start) chunk)
                                (temp_files w)\<rparr>;
                      m1 = m\<lparr>received := end_exclusive\<rparr>;
                      w2 = store_state w1 uid m1
                  in if received m1 \<ge> total_size m1
                     then (case finalize mgr w2 m1 of
                             (Inl e, w3) \<Rightarrow> (Inl e, w3)
                           | (Inr u, w3) \<Rightarrow> (Inr (public_state_of m1), w3))
                     else (Inr (public_state_of m1), w2)))"


definition cancel :: "world \<Rightarrow> string \<Rightarrow> world" where
  "cancel w uid = delete_state w uid"




subsection \<open>Predicates on the session store\<close>

text \<open>
  The upload directory as the program itself leaves it: one file per name, and the file
  of an upload id holds that id.
\<close>

definition entries_wf :: "(string \<times> state_file) list \<Rightarrow> bool" where
  "entries_wf xs =
     list_all (\<lambda>entry. case snd entry of NotJson \<Rightarrow> True
                                         | Stored d \<Rightarrow> upload_id d = fst entry) xs"

definition store_wf :: "world \<Rightarrow> bool" where
  "store_wf w = (distinct (map fst (state_files w)) \<and> entries_wf (state_files w))"





subsection \<open>The HTTP handler\<close>

text \<open>
  What a handler does to the connection, in order: the calls of \<^verbatim>\<open>send_error\<close>,
  \<^verbatim>\<open>send_response\<close>, \<^verbatim>\<open>send_header\<close>, \<^verbatim>\<open>end_headers\<close> and \<^verbatim>\<open>wfile.write\<close>.
\<close>

datatype wire =
    SendError nat string
  | SendResponse nat
  | SendHeader string string
  | EndHeaders
  | Write bytes

datatype json =
    JString string
  | JInt int
  | JFloat real
  | JBool bool
  | JObject "(string \<times> json) list"

text \<open>
  Library functions whose results the model does not compute: \<^verbatim>\<open>json.dumps\<close> followed by
  the UTF-8 encoding, \<^verbatim>\<open>mimetypes.guess_type\<close> on a file name, and the bytes that
  \<^verbatim>\<open>zipfile\<close> has written once the archive is closed.
\<close>

datatype zip_entry = DirEntry string | FileEntry string bytes

record runtime =
  json_dumps :: "json \<Rightarrow> bytes"
  guess_type :: "string \<Rightarrow> string option"
  zip_encode :: "zip_entry list \<Rightarrow> bytes"

record server_config =
  cfg_share_root :: path
  cfg_static_dir :: path
  cfg_state_dir :: path
  cfg_host :: string
  cfg_port :: int
  cfg_read_only :: bool
  cfg_overwrite :: bool

text \<open>
  A handler returns the world, what it sent, and the exception that left it uncaught, if
  any.
\<close>

type_synonym outcome = "world \<times> wire list \<times> error option"

definition send_json :: "runtime \<Rightarrow> nat \<Rightarrow> json \<Rightarrow> wire list" where
  "send_json rt code data =
     (let payload = json_dumps rt data
      in [SendResponse code,
          SendHeader ''Content-Type'' ''application/json; charset=utf-8'',
          SendHeader ''Content-Length'' (str_int (int (length payload))),
          SendHeader ''Access-Control-Allow-Origin'' ''*'',
          EndHeaders,
          Write payload])"

definition json_of_public :: "public_state \<Rightarrow> json" where
  "json_of_public v =
     JObject [(''upload_id'', JString (pub_upload_id v)),
              (''target_path'', JString (pub_target_path v)),
              (''total_size'', JInt (pub_total_size v)),
              (''received'', JInt (pub_received v)),
              (''overwrite'', JBool (pub_overwrite v)),
              (''created_at'', JFloat (pub_created_at v)),
              (''completed'', JBool (completed v))]"

definition require_write :: "server_config \<Rightarrow> wire list \<times> bool" where
  \<comment> \<open>\<^verbatim>\<open>_require_write\<close>\<close>
  "require_write cfg =
     (if cfg_read_only cfg
      then ([SendError 403 ''Server running in read-only mode''], False)
      else ([], True))"







text \<open>
  The request of \<^verbatim>\<open>do_PUT\<close> and \<^verbatim>\<open>do_DELETE\<close>: the request path, the values of the
  headers the handler reads, and the bytes that \<^verbatim>\<open>rfile\<close> will deliver.
\<close>

record request =
  req_path :: string
  content_length :: "string option"
  content_range :: "string option"
  rfile :: bytes


text \<open>
  \<^verbatim>\<open>do_DELETE\<close>. \<open>cancel\<close> raises nothing, so the \<^verbatim>\<open>except FileNotFoundError\<close> of
  the source has no branch here.
\<close>

definition do_DELETE :: "server_config \<Rightarrow> runtime \<Rightarrow> upload_manager \<Rightarrow> world \<Rightarrow> request \<Rightarrow> outcome" where
  "do_DELETE cfg rt mgr w req =
     (if \<not> startswith (req_path req) ''/api/upload/''
      then (w, [SendError 404 ''Unknown endpoint''], None)
      else
        let uid = last (split_on (CHR ''/'') (req_path req))
        in (cancel w uid, send_json rt 200 (JObject [(''deleted'', JString uid)]), None))"




text \<open>
  The branch of \<^verbatim>\<open>do_POST\<close> for \<^verbatim>\<open>/api/upload/session\<close>. What the first five statements of
  its \<^verbatim>\<open>try\<close> block yield is the input \<open>parsed\<close>: the exception that reading the JSON
  body and its fields raised, or the four arguments of \<^verbatim>\<open>create_session\<close>.
\<close>

datatype session_fields = BodyError error | Fields string int bool "bool option"

definition do_POST_except :: "world \<Rightarrow> error \<Rightarrow> outcome" where
  "do_POST_except w e =
     (case e of
        KeyError m \<Rightarrow> (w, [SendError 400 (str_exc e)], None)
      | ValueError m \<Rightarrow> (w, [SendError 400 (str_exc e)], None)
      | JSONDecodeError m \<Rightarrow> (w, [SendError 400 (str_exc e)], None)
      | PermissionError m \<Rightarrow> (w, [SendError 403 (str_exc e)], None)
      | _ \<Rightarrow> (w, [], Some e))"

definition do_POST_upload_session ::
  "server_config \<Rightarrow> runtime \<Rightarrow> upload_manager \<Rightarrow> world \<Rightarrow> session_fields \<Rightarrow> string \<Rightarrow> real
     \<Rightarrow> outcome" where
  "do_POST_upload_session cfg rt mgr w parsed new_id now =
     (if \<not> snd (require_write cfg) then (w, fst (require_write cfg), None)
      else
        case parsed of
          BodyError e \<Rightarrow> do_POST_except w e
        | Fields target declared_size resume ov \<Rightarrow>
            (case create_session mgr w target declared_size resume ov new_id now of
               (Inl e, w') \<Rightarrow> do_POST_except w' e
             | (Inr m, w') \<Rightarrow> (w', send_json rt 201 (json_of_public m), None)))"


subsection \<open>Range downloads\<close>








subsection \<open>Archives\<close>

text \<open>
  \<^verbatim>\<open>Path(s)\<close> on a string and \<^verbatim>\<open>as_posix()\<close>: the root (empty, \<^verbatim>\<open>/\<close> or \<^verbatim>\<open>//\<close>) and the
  components, empty ones and \<^verbatim>\<open>.\<close> dropped, \<^verbatim>\<open>..\<close> kept.
\<close>

definition pure_path :: "string \<Rightarrow> string \<times> string list" where
  "pure_path s =
     ((if startswith s ''//'' \<and> \<not> startswith s ''///'' then ''//''
       else if startswith s ''/'' then ''/'' else []),
      filter (\<lambda>p. p \<noteq> [] \<and> p \<noteq> ''.'') (split_on (CHR ''/'') s))"

definition as_posix :: "string \<times> string list \<Rightarrow> string" where
  "as_posix pp =
     (if fst pp = [] \<and> snd pp = [] then ''.'' else fst pp @ join_with ''/'' (snd pp))"

definition file_arcname :: "string \<Rightarrow> path \<Rightarrow> string" where
  \<comment> \<open>\<^verbatim>\<open>str(Path(rel) / abs_file.relative_to(path))\<close>, \<open>sub\<close> being the relative part\<close>
  "file_arcname rel sub = as_posix (fst (pure_path rel), snd (pure_path rel) @ sub)"

definition dir_arcname :: "string \<Rightarrow> path \<Rightarrow> string" where
  "dir_arcname rel sub =
     rstrip_chars (CHR ''/'') (as_posix (fst (pure_path rel), snd (pure_path rel) @ sub)) @ ''/''"

text \<open>
  The body of the loop over \<^verbatim>\<open>os.walk(path)\<close> for one directory, \<open>sub\<close> being its path
  below \<^verbatim>\<open>path\<close>: the regular files, then the subdirectories.
\<close>

definition walk_step :: "string \<Rightarrow> path \<Rightarrow> (string \<times> node) list \<Rightarrow> zip_entry list" where
  "walk_step rel sub es =
     concat (map (\<lambda>(item, n). case n of File b \<Rightarrow> [FileEntry (file_arcname rel (sub @ [item])) b]
                                       | Dir ds \<Rightarrow> []) es)
     @ concat (map (\<lambda>(d, n). case n of File b \<Rightarrow> []
                                      | Dir ds \<Rightarrow> [DirEntry (dir_arcname rel (sub @ [d]))]) es)"

text \<open>\<^verbatim>\<open>os.walk\<close>, top down: a directory, then each of its subdirectories in turn.\<close>

fun walk_dir :: "string \<Rightarrow> path \<Rightarrow> node \<Rightarrow> zip_entry list"
  and walk_subdirs :: "string \<Rightarrow> path \<Rightarrow> (string \<times> node) list \<Rightarrow> zip_entry list" where
  "walk_dir rel sub (File b) = []"
| "walk_dir rel sub (Dir es) = walk_step rel sub es @ walk_subdirs rel sub es"
| "walk_subdirs rel sub [] = []"
| "walk_subdirs rel sub (e # es) = walk_dir rel (sub @ [fst e]) (snd e) @ walk_subdirs rel sub es"

text \<open>
  The \<^verbatim>\<open>for rel in rel_paths\<close> loop of \<^verbatim>\<open>_send_zip\<close>; \<open>zf\<close> is what has been written to
  the archive so far.
\<close>

fun zip_loop :: "server_config \<Rightarrow> world \<Rightarrow> zip_entry list \<Rightarrow> string list \<Rightarrow> error + zip_entry list" where
  "zip_loop cfg w zf [] = Inr zf"
| "zip_loop cfg w zf (rel # rels) =
     (case safe_join (resolve w) (cfg_share_root cfg) rel of
        Inl e \<Rightarrow> Inl e
      | Inr p \<Rightarrow>
          (case lookup (tree w) p of
             Some (Dir es) \<Rightarrow>
               zip_loop cfg w (zf @ [DirEntry (dir_arcname rel [])] @ walk_dir rel [] (Dir es)) rels
           | Some (File b) \<Rightarrow> zip_loop cfg w (zf @ [FileEntry rel b]) rels
           | None \<Rightarrow> Inl (FileNotFoundError (''Path not found: '' @ rel))))"

definition path_present :: "server_config \<Rightarrow> world \<Rightarrow> string \<Rightarrow> bool" where
  \<comment> \<open>the relative path resolves inside the share root to a file or directory that exists\<close>
  "path_present cfg w rel =
     (case safe_join (resolve w) (cfg_share_root cfg) rel of
        Inl e \<Rightarrow> False
      | Inr p \<Rightarrow> lookup (tree w) p \<noteq> None)"

definition send_zip ::
  "server_config \<Rightarrow> runtime \<Rightarrow> world \<Rightarrow> string list \<Rightarrow> real \<Rightarrow> wire list \<times> error option" where
  \<comment> \<open>\<^verbatim>\<open>_send_zip\<close>; \<open>now\<close> is what \<^verbatim>\<open>time.time()\<close> returns\<close>
  "send_zip cfg rt w rel_paths now =
     (case zip_loop cfg w [] rel_paths of
        Inl e \<Rightarrow> ([], Some e)
      | Inr zf \<Rightarrow>
          let data = zip_encode rt zf;
              filename = ''homeshare-'' @ str_int (if now \<ge> 0 then floor now else ceiling now)
                           @ ''.zip''
          in ([SendResponse 200,
               SendHeader ''Content-Type'' ''application/zip'',
               SendHeader ''Content-Length'' (str_int (int (length data))),
               SendHeader ''Content-Disposition''
                 (''attachment; filename='' @ [CHR 0x22] @ filename @ [CHR 0x22]),
               EndHeaders,
               Write data], None))"


subsection \<open>A small server\<close>

text \<open>
  A share root \<^verbatim>\<open>/srv\<close> holding a file of five bytes and a directory, an empty upload
  directory, and no symbolic links: the concrete instance on which the general statements
  below are evaluated.
\<close>

definition ex_tree :: node where
  "ex_tree =
     Dir [(''srv'', Dir [(''a.txt'', File [1, 2, 3, 4, 5]),
                        (''d'', Dir [(''e'', Dir []), (''f.bin'', File [7])])])]"

definition ex_world :: world where
  "ex_world = \<lparr>resolve = lexical_resolve, tree = ex_tree, state_files = [], temp_files = []\<rparr>"

definition ex_mgr :: upload_manager where
  "ex_mgr = \<lparr>mgr_share_root = [''srv''], mgr_overwrite = False\<rparr>"

definition ex_cfg :: server_config where
  "ex_cfg = \<lparr>cfg_share_root = [''srv''], cfg_static_dir = [''static''],
             cfg_state_dir = [''state''], cfg_host = ''0.0.0.0'', cfg_port = 8000,
             cfg_read_only = False, cfg_overwrite = False\<rparr>"

definition ex_rt :: runtime where
  "ex_rt = \<lparr>json_dumps = (\<lambda>j. []), guess_type = (\<lambda>name. None),
            zip_encode = (\<lambda>zf. concat (map (\<lambda>e. case e of DirEntry n \<Rightarrow> []
                                                       | FileEntry n b \<Rightarrow> b) zf))\<rparr>"

definition ex_meta :: "string \<Rightarrow> string \<Rightarrow> int \<Rightarrow> int \<Rightarrow> meta" where
  "ex_meta uid target declared_size got =
     \<lparr>upload_id = uid, target_path = target, temp_file = temp_file_name uid,
      total_size = declared_size, received = got, overwrite = False, created_at = 0\<rparr>"

text \<open>The small server with one session on disk and its staging file.\<close>

definition ex_world_with :: "meta \<Rightarrow> bytes \<Rightarrow> world" where
  "ex_world_with m staged =
     ex_world\<lparr>state_files := [(upload_id m, Stored m)], temp_files := [(temp_file m, staged)]\<rparr>"


text \<open>The small server in read-only mode, and requests to it.\<close>

definition ex_cfg_read_only :: server_config where
  "ex_cfg_read_only = ex_cfg\<lparr>cfg_read_only := True\<rparr>"


definition ex_delete :: "string \<Rightarrow> request" where
  "ex_delete uid =
     \<lparr>req_path = ''/api/upload/'' @ uid, content_length = None, content_range = None,
      rfile = []\<rparr>"

section \<open>Path confinement\<close>

lemma safe_join_cases:
  "safe_join res root_dir relative =
     (if prefix root_dir (resolve_or_self res (candidate_path root_dir relative))
      then Inr (resolve_or_self res (candidate_path root_dir relative))
      else Inl (PermissionError ''Requested path escapes share root''))"
  by (simp add: safe_join_def relative_to_def Let_def)




section \<open>The session store\<close>

subsection \<open>Association lists and the listing of sessions\<close>

lemma update_values_subset: "snd ` set (AList.update k v al) \<subseteq> insert v (snd ` set al)"
  by (induction al) auto

lemma update_mem_same: "(k, v) \<in> set (AList.update k v al)"
  by (induction al) auto

lemma update_mem_other: "k \<noteq> k' \<Longrightarrow> (k, v) \<in> set al \<Longrightarrow> (k, v) \<in> set (AList.update k' v' al)"
  by (induction al) auto

lemma add_session_values:
  "snd ` set (add_session acc x) \<subseteq> snd ` set acc \<union> {d. snd x = Stored d}"
proof (cases "snd x")
  case NotJson
  then show ?thesis by (simp add: add_session_def)
next
  case (Stored d)
  then show ?thesis using update_values_subset [of "upload_id d" d acc]
    by (auto simp: add_session_def)
qed

lemma listed_subset_stored:
  "snd ` set (foldl add_session acc xs) \<subseteq> snd ` set acc \<union> {d. Stored d \<in> snd ` set xs}"
proof (induction xs arbitrary: acc)
  case Nil
  then show ?case by simp
next
  case (Cons x xs)
  have "snd ` set (foldl add_session (add_session acc x) xs)
          \<subseteq> snd ` set (add_session acc x) \<union> {d. Stored d \<in> snd ` set xs}"
    by (rule Cons.IH)
  also have "\<dots> \<subseteq> (snd ` set acc \<union> {d. snd x = Stored d}) \<union> {d. Stored d \<in> snd ` set xs}"
    using add_session_values [of acc x] by blast
  also have "\<dots> \<subseteq> snd ` set acc \<union> {d. Stored d \<in> snd ` set (x # xs)}"
    by force
  finally show ?case by simp
qed

lemma session_survives:
  "(k, d) \<in> set acc \<Longrightarrow> k \<notin> fst ` set xs \<Longrightarrow> entries_wf xs \<Longrightarrow> (k, d) \<in> set (foldl add_session acc xs)"
proof (induction xs arbitrary: acc)
  case Nil
  then show ?case by simp
next
  case (Cons x xs)
  have "(k, d) \<in> set (add_session acc x)"
  proof (cases "snd x")
    case NotJson
    then show ?thesis using Cons.prems(1) by (simp add: add_session_def)
  next
    case (Stored d')
    with Cons.prems(3) have "upload_id d' = fst x" by (simp add: entries_wf_def)
    with Cons.prems(2) have "k \<noteq> upload_id d'" by auto
    then show ?thesis using Cons.prems(1) Stored by (simp add: add_session_def update_mem_other)
  qed
  moreover have "k \<notin> fst ` set xs" "entries_wf xs" using Cons.prems by (auto simp: entries_wf_def)
  ultimately show ?case using Cons.IH by simp
qed

lemma stored_subset_listed:
  "distinct (map fst xs) \<Longrightarrow> entries_wf xs \<Longrightarrow> (k, Stored d) \<in> set xs
     \<Longrightarrow> (k, d) \<in> set (foldl add_session acc xs)"
proof (induction xs arbitrary: acc)
  case Nil
  then show ?case by simp
next
  case (Cons x xs)
  show ?case
  proof (cases "(k, Stored d) = x")
    case True
    then have "upload_id d = k" using Cons.prems(2) by (auto simp: entries_wf_def)
    then have "(k, d) \<in> set (add_session acc x)"
      using True by (auto simp: add_session_def update_mem_same)
    moreover have "k \<notin> fst ` set xs" using True Cons.prems(1) by force
    moreover have "entries_wf xs" using Cons.prems(2) by (simp add: entries_wf_def)
    ultimately show ?thesis using session_survives [of k d "add_session acc x" xs] by simp
  next
    case False
    then have "(k, Stored d) \<in> set xs" using Cons.prems(3) by auto
    moreover have "distinct (map fst xs)" "entries_wf xs" using Cons.prems by (auto simp: entries_wf_def)
    ultimately show ?thesis using Cons.IH by simp
  qed
qed

lemma load_state_Stored:
  "map_of (state_files w) uid = Some (Stored m) \<Longrightarrow> load_state w uid = Inr m"
  by (simp add: load_state_def)

lemma find_SomeD: "find P xs = Some y \<Longrightarrow> P y \<and> y \<in> set xs"
  by (induction xs) (auto split: if_splits)

lemma entries_wf_update:
  "entries_wf xs \<Longrightarrow> upload_id m = k \<Longrightarrow> entries_wf (AList.update k (Stored m) xs)"
  by (induction xs) (auto simp: entries_wf_def)

lemma store_wf_store_state:
  "store_wf w \<Longrightarrow> upload_id m = uid \<Longrightarrow> store_wf (store_state w uid m)"
  by (simp add: store_wf_def store_state_def distinct_update entries_wf_update)

lemma listed_iff_stored:
  assumes "store_wf w"
  shows "d \<in> snd ` set (list_sessions w) \<longleftrightarrow> Stored d \<in> snd ` set (state_files w)"
proof
  assume "d \<in> snd ` set (list_sessions w)"
  then show "Stored d \<in> snd ` set (state_files w)"
    using listed_subset_stored [of "[]" "state_files w"] by (auto simp: list_sessions_def)
next
  assume "Stored d \<in> snd ` set (state_files w)"
  then obtain k where "(k, Stored d) \<in> set (state_files w)" by auto
  then have "(k, d) \<in> set (list_sessions w)"
    using assms stored_subset_listed [of "state_files w" k d "[]"]
    by (simp add: store_wf_def list_sessions_def)
  then show "d \<in> snd ` set (list_sessions w)" by force
qed

lemma touch_fields [simp]:
  "state_files (touch w n) = state_files w" "tree (touch w n) = tree w"
  "resolve (touch w n) = resolve w"
  by (simp_all add: touch_def split: option.splits)

lemma store_state_fields [simp]:
  "state_files (store_state w uid m) = AList.update uid (Stored m) (state_files w)"
  "tree (store_state w uid m) = tree w" "resolve (store_state w uid m) = resolve w"
  "temp_files (store_state w uid m) = temp_files w"
  by (simp_all add: store_state_def)

lemma list_sessions_touch [simp]: "list_sessions (touch w n) = list_sessions w"
  by (simp add: list_sessions_def)

lemma store_wf_touch [simp]: "store_wf (touch w n) = store_wf w"
  by (simp add: store_wf_def)

text \<open>
  In a well-formed store with no session that satisfies \<open>P\<close>, the search finds a newly
  stored session that does, whatever file it replaced.
\<close>

lemma find_new_session:
  assumes wf: "store_wf w"
    and none: "find P (map snd (list_sessions w)) = None"
    and new: "P m" "upload_id m = uid"
  shows "find P (map snd (list_sessions (store_state w uid m))) = Some m"
proof -
  let ?w1 = "store_state w uid m"
  have wf1: "store_wf ?w1" using wf new(2) by (rule store_wf_store_state)
  have "Stored m \<in> snd ` set (state_files ?w1)"
    using update_mem_same [of uid "Stored m" "state_files w"] by force
  then have in1: "m \<in> snd ` set (list_sessions ?w1)" using wf1 by (simp add: listed_iff_stored)
  then have "find P (map snd (list_sessions ?w1)) \<noteq> None"
    using new(1) by (auto simp: find_None_iff)
  then obtain y where y: "find P (map snd (list_sessions ?w1)) = Some y" by auto
  then have Py: "P y" and "y \<in> snd ` set (list_sessions ?w1)"
    using find_SomeD [of P "map snd (list_sessions ?w1)" y] by auto
  then have "Stored y \<in> snd ` set (state_files ?w1)" using wf1 by (simp add: listed_iff_stored)
  then have "Stored y \<in> insert (Stored m) (snd ` set (state_files w))"
    using update_values_subset [of uid "Stored m" "state_files w"] by auto
  moreover have "Stored y \<notin> snd ` set (state_files w)"
  proof
    assume "Stored y \<in> snd ` set (state_files w)"
    then have "y \<in> snd ` set (list_sessions w)" using wf by (simp add: listed_iff_stored)
    then show False using none Py by (auto simp: find_None_iff)
  qed
  ultimately have "y = m" by auto
  then show ?thesis using y by simp
qed

subsection \<open>Resuming a session\<close>

text \<open>
  C5. In a well-formed upload directory, when \<open>create_session\<close> with \<open>resume\<close> set has
  returned a session for a target path and a declared size, a second call with
  \<open>resume\<close> set for the same pair returns the same public state, hence the same
  session id, and leaves everything on disk as the first call left it. The ids and
  times that the two calls draw, and their overwrite arguments, may differ.
\<close>

theorem create_session_resume_idempotent:
  assumes wf: "store_wf w"
    and first: "create_session mgr w target sz True ov1 id1 now1 = (Inr v1, w1)"
  shows "create_session mgr w1 target sz True ov2 id2 now2 = (Inr v1, w1)"
proof -
  let ?P = "\<lambda>state. target_path state = target \<and> total_size state = sz"
  obtain p where p: "safe_join (resolve w) (mgr_share_root mgr) target = Inr p"
    and nodir: "\<not> is_dir (tree w) p"
    using first by (auto simp: create_session_def split: sum.splits if_splits)
  show ?thesis
  proof (cases "find ?P (map snd (list_sessions w))")
    case (Some state)
    then have "v1 = public_state_of state" "w1 = w"
      using first p nodir by (auto simp: create_session_def)
    then show ?thesis using Some p nodir by (simp add: create_session_def)
  next
    case None
    define m where "m = \<lparr>upload_id = id1, target_path = target, temp_file = temp_file_name id1,
       total_size = sz, received = 0,
       overwrite = (case ov1 of None \<Rightarrow> mgr_overwrite mgr | Some b \<Rightarrow> b), created_at = now1\<rparr>"
    have res: "v1 = public_state_of m" "w1 = touch (store_state w id1 m) (temp_file_name id1)"
      using first p nodir None by (auto simp: create_session_def m_def Let_def)
    have "find ?P (map snd (list_sessions (store_state w id1 m))) = Some m"
      using wf None by (rule find_new_session) (simp_all add: m_def)
    then show ?thesis using res p nodir by (simp add: create_session_def)
  qed
qed

lemma ex_safe_join_new_file:
  "safe_join lexical_resolve [''srv''] ''b.txt'' = Inr [''srv'', ''b.txt'']"
  by (simp add: safe_join_cases candidate_path_def normpath_def strip_chars_def startswith_def
      resolve_or_self_def lexical_resolve_def Let_def)

theorem create_session_resume_idempotent_witness:
  "\<exists>v1 w1. store_wf ex_world
      \<and> create_session ex_mgr ex_world ''b.txt'' 10 True None ''id1'' 0 = (Inr v1, w1)
      \<and> create_session ex_mgr w1 ''b.txt'' 10 True (Some True) ''id2'' 1 = (Inr v1, w1)
      \<and> pub_upload_id v1 = ''id1''"
proof -
  have wf: "store_wf ex_world"
    by (simp add: store_wf_def entries_wf_def ex_world_def)
  obtain v1 w1 where first:
      "create_session ex_mgr ex_world ''b.txt'' 10 True None ''id1'' 0 = (Inr v1, w1)"
    and v1: "pub_upload_id v1 = ''id1''"
    by (simp add: create_session_def ex_world_def ex_mgr_def ex_safe_join_new_file is_dir_def
        ex_tree_def list_sessions_def public_state_of_def)
  from create_session_resume_idempotent [OF wf first, of "Some True" "''id2''" 1]
  show ?thesis using wf first v1 by blast
qed

subsection \<open>Chunks out of sequence\<close>

lemma append_chunk_wrong_start:
  assumes "map_of (state_files w) uid = Some (Stored m)" and "start \<noteq> received m"
  shows "append_chunk mgr w uid start end_exclusive chunk =
           (Inl (ValueError (''Unexpected chunk start: expected '' @ str_int (received m)
                              @ '', got '' @ str_int start)), w)"
proof -
  have "load_state w uid = Inr m" using assms(1) by (rule load_state_Stored)
  then show ?thesis using assms(2) by (simp add: append_chunk_def)
qed

text \<open>
  C2. For a session that exists on disk, \<open>append_chunk\<close> with a start offset different
  from the session's \<open>received\<close> raises the ValueError of an unexpected chunk start, and
  the world it leaves is the world it found: the stored metadata, hence
  \<open>received\<close>, and the staging file are unchanged.
\<close>

theorem append_chunk_sequence_mismatch:
  assumes "map_of (state_files w) uid = Some (Stored m)" and "start \<noteq> received m"
  shows "append_chunk mgr w uid start end_exclusive chunk =
           (Inl (ValueError (''Unexpected chunk start: expected '' @ str_int (received m)
                              @ '', got '' @ str_int start)), w)"
  using assms by (rule append_chunk_wrong_start)

lemma str_int_3: "str_int 3 = ''3''"
  by code_simp

lemma str_int_5: "str_int 5 = ''5''"
  by code_simp

theorem append_chunk_sequence_mismatch_witness:
  "map_of (state_files (ex_world_with (ex_meta ''id1'' ''b.txt'' 10 3) [1, 2, 3])) ''id1''
     = Some (Stored (ex_meta ''id1'' ''b.txt'' 10 3))
   \<and> (5::int) \<noteq> received (ex_meta ''id1'' ''b.txt'' 10 3)
   \<and> append_chunk ex_mgr (ex_world_with (ex_meta ''id1'' ''b.txt'' 10 3) [1, 2, 3]) ''id1'' 5 7 [8, 9]
       = (Inl (ValueError ''Unexpected chunk start: expected 3, got 5''),
          ex_world_with (ex_meta ''id1'' ''b.txt'' 10 3) [1, 2, 3])"
proof -
  let ?m = "ex_meta ''id1'' ''b.txt'' 10 3"
  let ?w = "ex_world_with ?m [1, 2, 3]"
  have h1: "map_of (state_files ?w) ''id1'' = Some (Stored ?m)"
    by (simp add: ex_world_with_def ex_meta_def)
  have h2: "(5::int) \<noteq> received ?m" by (simp add: ex_meta_def)
  have r: "received ?m = 3" by (simp add: ex_meta_def)
  from append_chunk_sequence_mismatch [OF h1 h2, of ex_mgr 7 "[8, 9]"]
  show ?thesis using h1 h2 by (simp add: r str_int_3 str_int_5)
qed

subsection \<open>A directory as the target\<close>

text \<open>
  C10. When the target path resolves, inside the share root, to an existing directory,
  \<open>create_session\<close> raises the ValueError "Target path points to a directory" and
  leaves the world as it was: no metadata and no staging file are created. On a server
  that is not read-only, the session branch of \<open>do_POST\<close> answers it with status 400.
\<close>

theorem create_session_rejects_directory:
  assumes "safe_join (resolve w) (mgr_share_root mgr) target = Inr p"
    and "is_dir (tree w) p"
  shows "create_session mgr w target sz resume ov new_id now
           = (Inl (ValueError ''Target path points to a directory''), w)
         \<and> (\<not> cfg_read_only cfg \<longrightarrow>
              do_POST_upload_session cfg rt mgr w (Fields target sz resume ov) new_id now
                = (w, [SendError 400 ''Target path points to a directory''], None))"
proof -
  have c: "create_session mgr w target sz resume ov new_id now
             = (Inl (ValueError ''Target path points to a directory''), w)"
    using assms by (simp add: create_session_def)
  then show ?thesis
    by (simp add: do_POST_upload_session_def require_write_def do_POST_except_def)
qed

lemma ex_safe_join_dir: "safe_join lexical_resolve [''srv''] ''d/'' = Inr [''srv'', ''d'']"
  by (simp add: safe_join_cases candidate_path_def normpath_def strip_chars_def startswith_def
      resolve_or_self_def lexical_resolve_def Let_def)

theorem create_session_rejects_directory_witness:
  "safe_join (resolve ex_world) (mgr_share_root ex_mgr) ''d/'' = Inr [''srv'', ''d'']
   \<and> is_dir (tree ex_world) [''srv'', ''d'']
   \<and> create_session ex_mgr ex_world ''d/'' 10 False None ''id1'' 0
        = (Inl (ValueError ''Target path points to a directory''), ex_world)
   \<and> \<not> cfg_read_only ex_cfg
   \<and> do_POST_upload_session ex_cfg ex_rt ex_mgr ex_world (Fields ''d/'' 10 False None) ''id1'' 0
        = (ex_world, [SendError 400 ''Target path points to a directory''], None)"
proof -
  have h1: "safe_join (resolve ex_world) (mgr_share_root ex_mgr) ''d/'' = Inr [''srv'', ''d'']"
    by (simp add: ex_world_def ex_mgr_def ex_safe_join_dir)
  have h2: "is_dir (tree ex_world) [''srv'', ''d'']"
    by (simp add: ex_world_def ex_tree_def is_dir_def)
  have h3: "\<not> cfg_read_only ex_cfg" by (simp add: ex_cfg_def)
  from create_session_rejects_directory [OF h1 h2, of 10 False None "''id1''" 0 ex_cfg ex_rt]
  show ?thesis using h1 h2 h3 by simp
qed

subsection \<open>Finalizing onto an existing target\<close>

lemma mkdir_parents_existing:
  "lookup t p = Some (Dir ds) \<Longrightarrow> mkdir_parents t p = Inr t"
proof (induction t p rule: mkdir_parents.induct)
  case (4 es c cs)
  then obtain sub where sub: "map_of es c = Some sub" and l: "lookup sub cs = Some (Dir ds)"
    by (auto split: option.splits)
  then have "mkdir_parents sub cs = Inr sub" using 4 by simp
  then show ?case using sub by (simp add: update_triv)
qed simp_all

lemma lookup_parent_dir:
  "lookup t p = Some n \<Longrightarrow> p \<noteq> [] \<Longrightarrow> \<exists>ds. lookup t (butlast p) = Some (Dir ds)"
proof (induction t p rule: lookup.induct)
  case (3 es c cs)
  then obtain sub where sub: "map_of es c = Some sub" and l: "lookup sub cs = Some n"
    by (auto split: option.splits)
  show ?case
  proof (cases "cs = []")
    case True
    then show ?thesis by simp
  next
    case False
    then obtain ds where "lookup sub (butlast cs) = Some (Dir ds)" using 3 sub l by auto
    then show ?thesis using sub False by simp
  qed
qed simp_all

lemma mkdir_parent_of_existing:
  assumes "lookup t p = Some n" and "is_dir t []"
  shows "mkdir_parents t (butlast p) = Inr t"
proof (cases "p = []")
  case True
  then show ?thesis using assms(2) by (cases t) (simp_all add: is_dir_def)
next
  case False
  then obtain ds where "lookup t (butlast p) = Some (Dir ds)"
    using assms(1) lookup_parent_dir by blast
  then show ?thesis by (rule mkdir_parents_existing)
qed

lemma finalize_target_exists:
  assumes "safe_join (resolve w) (mgr_share_root mgr) (target_path m) = Inr target"
    and "lookup (tree w) target = Some n" and "is_dir (tree w) []" and "\<not> overwrite m"
  shows "finalize mgr w m = (Inl (FileExistsError (''Target file exists: '' @ target_path m)), w)"
proof -
  have "mkdir_parents (tree w) (butlast target) = Inr (tree w)"
    using assms(2,3) by (rule mkdir_parent_of_existing)
  then show ?thesis using assms by (simp add: finalize_def path_exists_def)
qed

lemma append_chunk_existing_target:
  assumes stored: "map_of (state_files w) uid = Some (Stored m)"
    and staged: "map_of (temp_files w) (temp_file m) = Some old"
    and start: "start = received m" "0 \<le> start" "start \<le> end_exclusive"
    and complete: "end_exclusive = total_size m"
    and target: "safe_join (resolve w) (mgr_share_root mgr) (target_path m) = Inr target"
    and existing: "lookup (tree w) target = Some n"
    and root: "is_dir (tree w) []"
    and no_overwrite: "\<not> overwrite m"
  shows "\<exists>w'. append_chunk mgr w uid start end_exclusive chunk
                = (Inl (FileExistsError (''Target file exists: '' @ target_path m)), w')
             \<and> tree w' = tree w
             \<and> map_of (state_files w') uid = Some (Stored (m\<lparr>received := total_size m\<rparr>))
             \<and> map_of (temp_files w') (temp_file m) = Some (write_at old (nat start) chunk)"
proof -
  let ?m1 = "m\<lparr>received := end_exclusive\<rparr>"
  let ?w2 = "store_state (w\<lparr>temp_files := AList.update (temp_file m)
                 (write_at old (nat start) chunk) (temp_files w)\<rparr>) uid ?m1"
  have ld: "load_state w uid = Inr m" using stored by (rule load_state_Stored)
  have fin: "finalize mgr ?w2 ?m1
               = (Inl (FileExistsError (''Target file exists: '' @ target_path ?m1)), ?w2)"
    by (rule finalize_target_exists) (use target existing root no_overwrite in simp_all)
  have "append_chunk mgr w uid start end_exclusive chunk
          = (Inl (FileExistsError (''Target file exists: '' @ target_path m)), ?w2)"
    using ld staged start complete fin by (simp add: append_chunk_def Let_def)
  moreover have "tree ?w2 = tree w" by simp
  moreover have "map_of (state_files ?w2) uid = Some (Stored (m\<lparr>received := total_size m\<rparr>))"
    using complete by (simp add: update_conv')
  moreover have "map_of (temp_files ?w2) (temp_file m) = Some (write_at old (nat start) chunk)"
    by (simp add: update_conv')
  ultimately show ?thesis by blast
qed

text \<open>
  C3. A chunk that completes a session (it starts at \<open>received\<close> and ends at
  \<open>total_size\<close>) whose target resolves to a path that exists, with \<open>overwrite\<close>
  false, makes \<open>append_chunk\<close> raise FileExistsError. Afterwards the tree, and with it
  the existing target, is what it was; the metadata is still stored, with \<open>received\<close>
  equal to \<open>total_size\<close>; and the staging file is still there, holding the chunk.
\<close>

theorem append_chunk_target_exists:
  assumes stored: "map_of (state_files w) uid = Some (Stored m)"
    and staged: "map_of (temp_files w) (temp_file m) = Some old"
    and start: "start = received m" "0 \<le> start" "start \<le> end_exclusive"
    and complete: "end_exclusive = total_size m"
    and target: "safe_join (resolve w) (mgr_share_root mgr) (target_path m) = Inr target"
    and existing: "lookup (tree w) target = Some n"
    and root: "is_dir (tree w) []"
    and no_overwrite: "\<not> overwrite m"
  shows "\<exists>w'. append_chunk mgr w uid start end_exclusive chunk
                = (Inl (FileExistsError (''Target file exists: '' @ target_path m)), w')
             \<and> tree w' = tree w
             \<and> map_of (state_files w') uid = Some (Stored (m\<lparr>received := total_size m\<rparr>))
             \<and> map_of (temp_files w') (temp_file m) = Some (write_at old (nat start) chunk)"
  using assms by (rule append_chunk_existing_target)

lemma ex_safe_join_file: "safe_join lexical_resolve [''srv''] ''a.txt'' = Inr [''srv'', ''a.txt'']"
  by (simp add: safe_join_cases candidate_path_def normpath_def strip_chars_def startswith_def
      resolve_or_self_def lexical_resolve_def Let_def)

theorem append_chunk_target_exists_witness:
  "\<exists>w'. append_chunk ex_mgr (ex_world_with (ex_meta ''id1'' ''a.txt'' 3 0) []) ''id1'' 0 3 [7, 8, 9]
           = (Inl (FileExistsError ''Target file exists: a.txt''), w')
        \<and> lookup (tree w') [''srv'', ''a.txt''] = Some (File [1, 2, 3, 4, 5])
        \<and> map_of (state_files w') ''id1'' = Some (Stored (ex_meta ''id1'' ''a.txt'' 3 3))
        \<and> map_of (temp_files w') ''id1.part'' = Some [7, 8, 9]"
proof -
  let ?m = "ex_meta ''id1'' ''a.txt'' 3 0"
  let ?w = "ex_world_with ?m []"
  have h1: "map_of (state_files ?w) ''id1'' = Some (Stored ?m)"
    by (simp add: ex_world_with_def ex_meta_def)
  have h2: "map_of (temp_files ?w) (temp_file ?m) = Some []"
    by (simp add: ex_world_with_def ex_meta_def)
  have h3: "(0::int) = received ?m" "(0::int) \<le> 0" "(0::int) \<le> 3" "(3::int) = total_size ?m"
    by (simp_all add: ex_meta_def)
  have h4: "safe_join (resolve ?w) (mgr_share_root ex_mgr) (target_path ?m) = Inr [''srv'', ''a.txt'']"
    by (simp add: ex_world_with_def ex_world_def ex_mgr_def ex_meta_def ex_safe_join_file)
  have h5: "lookup (tree ?w) [''srv'', ''a.txt''] = Some (File [1, 2, 3, 4, 5])"
    by (simp add: ex_world_with_def ex_world_def ex_tree_def)
  have h6: "is_dir (tree ?w) []"
    by (simp add: ex_world_with_def ex_world_def ex_tree_def is_dir_def)
  have h7: "\<not> overwrite ?m" by (simp add: ex_meta_def)
  have m3: "?m\<lparr>received := total_size ?m\<rparr> = ex_meta ''id1'' ''a.txt'' 3 3"
    by (simp add: ex_meta_def)
  have wr: "write_at [] 0 [7, 8, 9] = [7, 8, 9]" by (simp add: write_at_def)
  have tf: "temp_file ?m = ''id1.part''" "target_path ?m = ''a.txt''"
    by (simp_all add: ex_meta_def temp_file_name_def)
  from append_chunk_target_exists [OF h1 h2 h3 h4 h5 h6 h7, of "[7, 8, 9]"]
  show ?thesis using h5 by (auto simp: m3 wr tf)
qed

subsection \<open>The bounds of the received offset\<close>







lemma delete_state_files [simp]:
  "state_files (delete_state w uid) = AList.delete uid (state_files w)"
  by (simp add: delete_state_def)







section \<open>Range downloads\<close>

lemma not_digit_minus [simp]: "\<not> is_digit (CHR ''-'')"
  by (simp add: is_digit_def)














section \<open>The handler\<close>

subsection \<open>The read-only gate\<close>


lemma read_only_rejects_session:
  assumes "cfg_read_only cfg"
  shows "do_POST_upload_session cfg rt mgr w parsed new_id now
           = (w, [SendError 403 ''Server running in read-only mode''], None)"
  using assms by (simp add: do_POST_upload_session_def require_write_def)

lemma do_DELETE_any_config:
  "do_DELETE cfg rt mgr w req = do_DELETE cfg' rt mgr w req"
  by (simp add: do_DELETE_def)

lemma ex_delete_path:
  "startswith (req_path (ex_delete ''id1'')) ''/api/upload/''"
  "last (split_on (CHR ''/'') (req_path (ex_delete ''id1''))) = ''id1''"
  by (simp_all add: ex_delete_def startswith_def)

text \<open>
  C7 fails for cancellation. \<^verbatim>\<open>do_DELETE\<close> never calls \<^verbatim>\<open>_require_write\<close>: on the small
  server in read-only mode, with one session on disk, it answers 200 and the session's
  metadata and staging file are gone.
\<close>

theorem do_DELETE_ignores_read_only:
  "cfg_read_only ex_cfg_read_only
   \<and> do_DELETE ex_cfg_read_only ex_rt ex_mgr
        (ex_world_with (ex_meta ''id1'' ''b.txt'' 10 3) [1, 2, 3]) (ex_delete ''id1'')
      = (ex_world, send_json ex_rt 200 (JObject [(''deleted'', JString ''id1'')]), None)"
  by (simp add: do_DELETE_def ex_delete_path cancel_def delete_state_def ex_world_with_def
      ex_meta_def ex_world_def temp_file_name_def ex_cfg_read_only_def)

subsection \<open>Failures and their status codes\<close>







lemma ex_safe_join_escape:
  "safe_join lexical_resolve [''srv''] ''../x''
     = Inl (PermissionError ''Requested path escapes share root'')"
  by code_simp



section \<open>Archives\<close>

lemma zip_loop_present:
  "list_all (path_present cfg w) pre
     \<Longrightarrow> \<exists>zf'. \<forall>rest. zip_loop cfg w zf (pre @ rest) = zip_loop cfg w zf' rest"
proof (induction pre arbitrary: zf)
  case Nil
  then show ?case by auto
next
  case (Cons rel pre)
  then obtain p where p: "safe_join (resolve w) (cfg_share_root cfg) rel = Inr p"
    and ex: "lookup (tree w) p \<noteq> None"
    by (auto simp: path_present_def split: sum.splits)
  then obtain nd where nd: "lookup (tree w) p = Some nd" by auto
  have "\<exists>zf1. \<forall>rest. zip_loop cfg w zf ((rel # pre) @ rest) = zip_loop cfg w zf1 (pre @ rest)"
    using p nd by (cases nd) auto
  then obtain zf1 where 1: "\<And>rest. zip_loop cfg w zf ((rel # pre) @ rest) = zip_loop cfg w zf1 (pre @ rest)"
    by blast
  obtain zf' where "\<forall>rest. zip_loop cfg w zf1 (pre @ rest) = zip_loop cfg w zf' rest"
    using Cons.IH [of zf1] Cons.prems by auto
  then show ?case using 1 by auto
qed

lemma zip_loop_all_present:
  assumes "list_all (path_present cfg w) paths"
  shows "\<exists>zf'. zip_loop cfg w zf paths = Inr zf'"
  using zip_loop_present [OF assms, of zf] by (metis append_Nil2 zip_loop.simps(1))

lemma send_zip_silent_failure:
  "send_zip cfg rt w paths now = (out, Some e) \<Longrightarrow> out = []"
  by (auto simp: send_zip_def Let_def split: sum.splits)

text \<open>
  C9, as the code has it. The paths are handled in order. When the first path that is not
  present resolves inside the share root to nothing, \<open>send_zip\<close> raises
  FileNotFoundError; when it escapes the share root, \<open>send_zip\<close> raises PermissionError,
  whatever comes after it. Whenever \<open>send_zip\<close> raises, it has sent nothing. When every
  path is present, the whole archive is built first, and \<^verbatim>\<open>Content-Length\<close>, sent before
  the single write of the archive, is the length of the bytes written.
\<close>

theorem send_zip_all_or_nothing:
  "(list_all (path_present cfg w) pre
      \<and> safe_join (resolve w) (cfg_share_root cfg) rel = Inr p \<and> lookup (tree w) p = None
     \<longrightarrow> send_zip cfg rt w (pre @ rel # post) now
           = ([], Some (FileNotFoundError (''Path not found: '' @ rel))))
   \<and> (list_all (path_present cfg w) pre
      \<and> safe_join (resolve w) (cfg_share_root cfg) rel = Inl e
     \<longrightarrow> send_zip cfg rt w (pre @ rel # post) now
           = ([], Some (PermissionError ''Requested path escapes share root'')))
   \<and> (\<forall>out err. send_zip cfg rt w paths now = (out, Some err) \<longrightarrow> out = [])
   \<and> (list_all (path_present cfg w) paths
     \<longrightarrow> (\<exists>zf. zip_loop cfg w [] paths = Inr zf
            \<and> send_zip cfg rt w paths now =
                ([SendResponse 200,
                  SendHeader ''Content-Type'' ''application/zip'',
                  SendHeader ''Content-Length'' (str_int (int (length (zip_encode rt zf)))),
                  SendHeader ''Content-Disposition''
                    (''attachment; filename='' @ [CHR 0x22] @ ''homeshare-''
                       @ str_int (if now \<ge> 0 then floor now else ceiling now) @ ''.zip''
                       @ [CHR 0x22]),
                  EndHeaders,
                  Write (zip_encode rt zf)], None)))"
proof (intro conjI impI allI)
  assume a: "list_all (path_present cfg w) pre
      \<and> safe_join (resolve w) (cfg_share_root cfg) rel = Inr p \<and> lookup (tree w) p = None"
  then obtain zf' where "zip_loop cfg w [] (pre @ rel # post) = zip_loop cfg w zf' (rel # post)"
    using zip_loop_present [of cfg w pre "[]"] by blast
  then have "zip_loop cfg w [] (pre @ rel # post) = Inl (FileNotFoundError (''Path not found: '' @ rel))"
    using a by simp
  then show "send_zip cfg rt w (pre @ rel # post) now
           = ([], Some (FileNotFoundError (''Path not found: '' @ rel)))"
    by (simp add: send_zip_def)
next
  assume a: "list_all (path_present cfg w) pre
      \<and> safe_join (resolve w) (cfg_share_root cfg) rel = Inl e"
  then have e: "e = PermissionError ''Requested path escapes share root''"
    by (simp add: safe_join_cases split: if_splits)
  obtain zf' where "zip_loop cfg w [] (pre @ rel # post) = zip_loop cfg w zf' (rel # post)"
    using a zip_loop_present [of cfg w pre "[]"] by blast
  then have "zip_loop cfg w [] (pre @ rel # post) = Inl e"
    using a by simp
  then show "send_zip cfg rt w (pre @ rel # post) now
           = ([], Some (PermissionError ''Requested path escapes share root''))"
    using e by (simp add: send_zip_def)
next
  fix out err
  assume "send_zip cfg rt w paths now = (out, Some err)"
  then show "out = []" by (rule send_zip_silent_failure)
next
  assume "list_all (path_present cfg w) paths"
  then obtain zf where zf: "zip_loop cfg w [] paths = Inr zf"
    using zip_loop_all_present by blast
  then show "\<exists>zf. zip_loop cfg w [] paths = Inr zf
            \<and> send_zip cfg rt w paths now =
                ([SendResponse 200,
                  SendHeader ''Content-Type'' ''application/zip'',
                  SendHeader ''Content-Length'' (str_int (int (length (zip_encode rt zf)))),
                  SendHeader ''Content-Disposition''
                    (''attachment; filename='' @ [CHR 0x22] @ ''homeshare-''
                       @ str_int (if now \<ge> 0 then floor now else ceiling now) @ ''.zip''
                       @ [CHR 0x22]),
                  EndHeaders,
                  Write (zip_encode rt zf)], None)"
    by (simp add: send_zip_def Let_def)
qed

text \<open>
  As the specification states it, C9 fails on the small server: \<^verbatim>\<open>nope\<close> resolves to neither a file nor a
  directory, yet the request fails with the PermissionError of the path before it.
\<close>

theorem escape_before_missing_counterexample:
  "safe_join (resolve ex_world) (cfg_share_root ex_cfg) ''nope'' = Inr [''srv'', ''nope'']
   \<and> lookup (tree ex_world) [''srv'', ''nope''] = None
   \<and> send_zip ex_cfg ex_rt ex_world [''../x'', ''nope''] 0
        = ([], Some (PermissionError ''Requested path escapes share root''))"
  by code_simp

lemma ex_present: "list_all (path_present ex_cfg ex_world) [''a.txt'', ''d'']"
  by code_simp

lemma ex_zip_loop:
  "zip_loop ex_cfg ex_world [] [''a.txt'', ''d'']
     = Inr [FileEntry ''a.txt'' [1, 2, 3, 4, 5], DirEntry ''d/'', FileEntry ''d/f.bin'' [7],
            DirEntry ''d/e/'']"
  by code_simp

lemma ex_zip_numbers: "str_int 6 = ''6''" "str_int 0 = ''0''"
  by code_simp+

theorem send_zip_all_or_nothing_witness:
  "send_zip ex_cfg ex_rt ex_world [''a.txt'', ''nope'', ''d''] 0
     = ([], Some (FileNotFoundError ''Path not found: nope''))
   \<and> send_zip ex_cfg ex_rt ex_world [''a.txt'', ''../x'', ''nope''] 0
     = ([], Some (PermissionError ''Requested path escapes share root''))
   \<and> send_zip ex_cfg ex_rt ex_world [''a.txt'', ''d''] 0
     = ([SendResponse 200,
         SendHeader ''Content-Type'' ''application/zip'',
         SendHeader ''Content-Length'' ''6'',
         SendHeader ''Content-Disposition''
           (''attachment; filename='' @ [CHR 0x22] @ ''homeshare-0.zip'' @ [CHR 0x22]),
         EndHeaders,
         Write [1, 2, 3, 4, 5, 7]], None)"
proof -
  have pre: "list_all (path_present ex_cfg ex_world) [''a.txt'']"
    using ex_present by simp
  have missing: "safe_join (resolve ex_world) (cfg_share_root ex_cfg) ''nope'' = Inr [''srv'', ''nope'']"
    "lookup (tree ex_world) [''srv'', ''nope''] = None"
    by code_simp+
  have esc: "safe_join (resolve ex_world) (cfg_share_root ex_cfg) ''../x''
               = Inl (PermissionError ''Requested path escapes share root'')"
    by (simp add: ex_world_def ex_cfg_def ex_safe_join_escape)
  note a = send_zip_all_or_nothing [where cfg = ex_cfg and w = ex_world and rt = ex_rt
      and pre = "[''a.txt'']" and rel = "''nope''" and p = "[''srv'', ''nope'']"
      and post = "[''d'']" and now = 0]
  note b = send_zip_all_or_nothing [where cfg = ex_cfg and w = ex_world and rt = ex_rt
      and pre = "[''a.txt'']" and rel = "''../x''" and post = "[''nope'']" and now = 0
      and e = "PermissionError ''Requested path escapes share root''"]
  note c = send_zip_all_or_nothing [where cfg = ex_cfg and w = ex_world and rt = ex_rt
      and paths = "[''a.txt'', ''d'']" and now = 0]
  have 1: "send_zip ex_cfg ex_rt ex_world [''a.txt'', ''nope'', ''d''] 0
     = ([], Some (FileNotFoundError ''Path not found: nope''))"
    using a pre missing by simp
  have 2: "send_zip ex_cfg ex_rt ex_world [''a.txt'', ''../x'', ''nope''] 0
     = ([], Some (PermissionError ''Requested path escapes share root''))"
    using b pre esc by simp
  have enc: "zip_encode ex_rt [FileEntry ''a.txt'' [1, 2, 3, 4, 5], DirEntry ''d/'',
                FileEntry ''d/f.bin'' [7], DirEntry ''d/e/''] = [1, 2, 3, 4, 5, 7]"
    by (simp add: ex_rt_def)
  obtain zf where z: "zip_loop ex_cfg ex_world [] [''a.txt'', ''d''] = Inr zf"
    and s: "send_zip ex_cfg ex_rt ex_world [''a.txt'', ''d''] 0 =
                ([SendResponse 200,
                  SendHeader ''Content-Type'' ''application/zip'',
                  SendHeader ''Content-Length'' (str_int (int (length (zip_encode ex_rt zf)))),
                  SendHeader ''Content-Disposition''
                    (''attachment; filename='' @ [CHR 0x22] @ ''homeshare-''
                       @ str_int (if (0::real) \<ge> 0 then floor (0::real) else ceiling (0::real))
                       @ ''.zip'' @ [CHR 0x22]),
                  EndHeaders,
                  Write (zip_encode ex_rt zf)], None)"
    using c ex_present by blast
  have "zf = [FileEntry ''a.txt'' [1, 2, 3, 4, 5], DirEntry ''d/'', FileEntry ''d/f.bin'' [7],
            DirEntry ''d/e/'']"
    using z unfolding ex_zip_loop by simp
  then have 3: "send_zip ex_cfg ex_rt ex_world [''a.txt'', ''d''] 0
     = ([SendResponse 200,
         SendHeader ''Content-Type'' ''application/zip'',
         SendHeader ''Content-Length'' ''6'',
         SendHeader ''Content-Disposition''
           (''attachment; filename='' @ [CHR 0x22] @ ''homeshare-0.zip'' @ [CHR 0x22]),
         EndHeaders,
         Write [1, 2, 3, 4, 5, 7]], None)"
    using s by (simp add: enc ex_zip_numbers)
  show ?thesis using 1 2 3 by simp
qed

end
